theory Spec2Isabelle
  imports Main
begin

section \<open>The syntax trees the generator reads and builds\<close>

text \<open>
  The generator works on the trees of Go's \<^verbatim>\<open>go/ast\<close>. Only the node kinds and fields
  that \<^verbatim>\<open>main.go\<close> reads or writes are modelled. A \<^verbatim>\<open>token.Pos\<close> is an integer, with
  \<^verbatim>\<open>token.NoPos = 0\<close>. A pointer that may be \<^verbatim>\<open>nil\<close> is an \<open>option\<close>. A
  \<^verbatim>\<open>*ast.FieldList\<close> is the list of its fields and a \<^verbatim>\<open>*ast.CommentGroup\<close> the list of
  its comments (the positions of the parentheses are left out).
\<close>

record ident =
  NamePos :: int
  Name :: string

definition NewIdent :: "string \<Rightarrow> ident" where
  "NewIdent name = \<lparr>NamePos = 0, Name = name\<rparr>"

text \<open>
  Expressions. Parameter types are expressions which the generator never inspects: it
  passes them on and looks them up in the type information. \<open>OtherExpr\<close> stands for
  every node kind that has no constructor of its own, told apart by its position.
\<close>

datatype expr =
    Ident ident
  | StarExpr int expr
  | SelectorExpr expr ident
  | CallExpr expr "expr list"
  | OtherExpr int

record comment =
  Slash :: int
  Text :: string

record field =
  Names :: "ident list"
  Type :: expr

record functype =
  Params :: "field list"
  Results :: "field list option"

datatype stmt =
    ReturnStmt "expr list"
  | ExprStmt expr
  | OtherStmt int

record funcdecl =
  Doc :: "comment list option"
  Recv :: "field list option"
  FuncName :: ident
  FuncType :: functype
  Body :: "stmt list option"

datatype token = token_IMPORT | token_CONST | token_TYPE | token_VAR

text \<open>
  \<^verbatim>\<open>ast.Decl\<close> is an interface with three implementations in \<^verbatim>\<open>go/ast\<close>:
  \<^verbatim>\<open>*ast.GenDecl\<close>, \<^verbatim>\<open>*ast.FuncDecl\<close> and \<^verbatim>\<open>*ast.BadDecl\<close>.
\<close>

datatype decl =
    GenDecl token
  | FuncDecl funcdecl
  | BadDecl

record File =
  PkgIdent :: ident
  Decls :: "decl list"

text \<open>
  A loaded package. \<open>TypesInfo\<close> is \<^verbatim>\<open>pkg.TypesInfo.Types\<close> followed by
  \<^verbatim>\<open>.Type.String()\<close>: the canonical string of the type recorded for an expression, and
  \<open>None\<close> where the map has no entry (the lookup then yields a nil \<^verbatim>\<open>types.Type\<close>).
  The Go map is keyed by the node; the nodes of parsed source differ in their positions,
  so an expression with its positions stands for its node.
\<close>

record package =
  PkgPath :: string
  PkgName :: string
  Syntax :: "File list"
  TypesInfo :: "expr \<rightharpoonup> string"

record Gen =
  pkg :: package
  methods :: "funcdecl list"

section \<open>The two tables\<close>

definition validMethodTypes :: "string \<rightharpoonup> bool" where
  "validMethodTypes = map_of
    [(''*github.com/jupiterrider/purego-sdl3/sdl.Camera'', True),
     (''*github.com/jupiterrider/purego-sdl3/sdl.Cursor'', True),
     (''*github.com/jupiterrider/purego-sdl3/sdl.Renderer'', True),
     (''*github.com/jupiterrider/purego-sdl3/sdl.Surface'', True),
     (''*github.com/jupiterrider/purego-sdl3/sdl.Texture'', True),
     (''*github.com/jupiterrider/purego-sdl3/sdl.Window'', True)]"

definition renameMethod :: "string \<rightharpoonup> string" where
  "renameMethod = map_of
    [(''AcquireCameraFrame'', ''AcquireFrame''),
     (''CloseCamera'', ''Close''),
     (''ReleaseCameraFrame'', ''ReleaseFrame''),
     (''DestroyCursor'', ''Destroy''),
     (''GetRendererName'', ''GetName''),
     (''DestroyRenderer'', ''Destroy''),
     (''RenderClear'', ''Clear''),
     (''RenderPresent'', ''Present''),
     (''SetRenderDrawColor'', ''SetDrawColor''),
     (''SetRenderVSync'', ''SetVSync''),
     (''BlitSurface'', ''Blit''),
     (''DestroySurface'', ''Destroy''),
     (''LockSurface'', ''Lock''),
     (''UnlockSurface'', ''Unlock''),
     (''DestroyTexture'', ''Destroy''),
     (''DestroyWindow'', ''Destroy''),
     (''GetWindowSize'', ''GetSize''),
     (''GetWindowSurface'', ''GetSurface''),
     (''HideWindow'', ''Hide''),
     (''SetWindowSize'', ''SetSize''),
     (''ShowWindow'', ''Show''),
     (''UpdateWindowSurface'', ''UpdateSurface'')]"

text \<open>
  \<^verbatim>\<open>validMethodTypes[typ.String()]\<close>: a missing key of a \<^verbatim>\<open>map[string]bool\<close> reads as
  \<^verbatim>\<open>false\<close>.
\<close>

definition isValidMethodType :: "string \<Rightarrow> bool" where
  "isValidMethodType typ = (case validMethodTypes typ of None \<Rightarrow> False | Some b \<Rightarrow> b)"

section \<open>Classifying and synthesizing\<close>

text \<open>
  The functions of this stage return no error of their own (\<^verbatim>\<open>genMethod\<close> always
  returns \<^verbatim>\<open>nil\<close>); they can only panic. A panic is the \<open>Inl\<close> of the result.
\<close>

datatype panic =
    NotYetImplemented
  | IndexOutOfRange
  | NilDereference

text \<open>
  The declaration \<^verbatim>\<open>genMethod\<close> builds (its variable \<^verbatim>\<open>methodDecl\<close>, with the body
  it is given at the end), from the function declaration and the two values read from
  its first parameter. The renaming table is an argument, so that the same construction
  can be read with another table. \<^verbatim>\<open>Name.String()\<close> of an identifier is its name.
\<close>

definition methodDecl :: "(string \<rightharpoonup> string) \<Rightarrow> funcdecl \<Rightarrow> field \<Rightarrow> ident \<Rightarrow> funcdecl" where
  "methodDecl rename funcDecl firstParam firstParamName =
    (let firstParamType = Type firstParam;
         funcName = Name (FuncName funcDecl);
         methodName = (case rename funcName of
                         Some newMethodName \<Rightarrow> newMethodName
                       | None \<Rightarrow> funcName);
         doc = (case Doc funcDecl of
                  None \<Rightarrow> []
                | Some cs \<Rightarrow> map (\<lambda>c. \<lparr>Slash = 0, Text = Text c\<rparr>) cs);
         args = concat (map (\<lambda>paramField. map Ident (Names paramField))
                            (Params (FuncType funcDecl)));
         callExpr = CallExpr (Ident (FuncName funcDecl)) args;
         hasReturn = (case Results (FuncType funcDecl) of
                        None \<Rightarrow> False
                      | Some rs \<Rightarrow> length rs > 0);
         stmt = (if hasReturn then ReturnStmt [callExpr] else ExprStmt callExpr)
     in \<lparr>Doc = Some doc,
         Recv = Some [\<lparr>Names = [NewIdent (Name firstParamName)], Type = firstParamType\<rparr>],
         FuncName = NewIdent methodName,
         FuncType = \<lparr>Params = drop 1 (Params (FuncType funcDecl)),
                     Results = Results (FuncType funcDecl)\<rparr>,
         Body = Some [stmt]\<rparr>)"

text \<open>
  \<^verbatim>\<open>genMethod\<close>. The two index reads \<^verbatim>\<open>params[0]\<close> and \<^verbatim>\<open>firstParam.Names[0]\<close>
  panic on an empty slice; otherwise the new declaration is appended to
  \<^verbatim>\<open>gen.methods\<close>.
\<close>

definition genMethodWith :: "(string \<rightharpoonup> string) \<Rightarrow> Gen \<Rightarrow> funcdecl \<Rightarrow> panic + Gen" where
  "genMethodWith rename gen funcDecl =
    (case Params (FuncType funcDecl) of
       [] \<Rightarrow> Inl IndexOutOfRange
     | firstParam # _ \<Rightarrow>
        (case Names firstParam of
           [] \<Rightarrow> Inl IndexOutOfRange
         | firstParamName # _ \<Rightarrow>
             Inr (gen\<lparr>methods :=
                    methods gen @ [methodDecl rename funcDecl firstParam firstParamName]\<rparr>)))"

definition genMethod :: "Gen \<Rightarrow> funcdecl \<Rightarrow> panic + Gen" where
  "genMethod = genMethodWith renameMethod"

text \<open>
  \<^verbatim>\<open>parseFuncDecl\<close>. Calling \<^verbatim>\<open>String()\<close> on the nil type of a missing map entry is a
  nil dereference.
\<close>

definition parseFuncDecl :: "Gen \<Rightarrow> funcdecl \<Rightarrow> panic + Gen" where
  "parseFuncDecl gen decl =
    (if Recv decl \<noteq> None then Inr gen
     else
       (let params = Params (FuncType decl) in
        if length params = 0 then Inr gen
        else
          (let firstParam = params ! 0 in
           if length (Names firstParam) \<noteq> 1 then Inr gen
           else
             (case TypesInfo (pkg gen) (Type firstParam) of
                None \<Rightarrow> Inl NilDereference
              | Some firstParamType \<Rightarrow>
                  if \<not> isValidMethodType firstParamType then Inr gen
                  else genMethod gen decl))))"

fun parseDecl :: "Gen \<Rightarrow> decl \<Rightarrow> panic + Gen" where
  "parseDecl gen (GenDecl tok) = Inr gen"
| "parseDecl gen (FuncDecl decl) = parseFuncDecl gen decl"
| "parseDecl gen BadDecl = Inl NotYetImplemented"

text \<open>The loop of \<^verbatim>\<open>parseFile\<close> over \<^verbatim>\<open>file.Decls\<close>, left at the first failure.\<close>

fun parseDecls :: "Gen \<Rightarrow> decl list \<Rightarrow> panic + Gen" where
  "parseDecls gen [] = Inr gen"
| "parseDecls gen (decl # decls) =
     (case parseDecl gen decl of
        Inl p \<Rightarrow> Inl p
      | Inr gen' \<Rightarrow> parseDecls gen' decls)"

definition parseFile :: "Gen \<Rightarrow> File \<Rightarrow> panic + Gen" where
  "parseFile gen file = parseDecls gen (Decls file)"

text \<open>The loop of \<^verbatim>\<open>parsePkg\<close> over \<^verbatim>\<open>gen.pkg.Syntax\<close>.\<close>

fun parseFiles :: "Gen \<Rightarrow> File list \<Rightarrow> panic + Gen" where
  "parseFiles gen [] = Inr gen"
| "parseFiles gen (file # files) =
     (case parseFile gen file of
        Inl p \<Rightarrow> Inl p
      | Inr gen' \<Rightarrow> parseFiles gen' files)"

definition parsePkg :: "Gen \<Rightarrow> panic + Gen" where
  "parsePkg gen = parseFiles gen (Syntax (pkg gen))"

section \<open>Emitting\<close>

text \<open>
  What lies outside the repository is an argument of the model: \<^verbatim>\<open>packages.Load\<close>,
  \<^verbatim>\<open>format.Node\<close> and \<^verbatim>\<open>format.Source\<close> of Go's tooling, and \<^verbatim>\<open>os.WriteFile\<close>. Each
  returns \<open>Inl\<close> (or \<open>Some\<close>) of a message when it fails. The world is the file system
  and the text printed to standard output so far.
\<close>

record filesystem =
  files :: "string \<rightharpoonup> string"
  space :: nat

record world =
  fs :: filesystem
  stdout :: string

record extern =
  packages_Load :: "string \<Rightarrow> string + package list"
  format_Node :: "File \<Rightarrow> string + string"
  format_Source :: "string \<Rightarrow> string + string"
  os_WriteFile :: "string \<Rightarrow> string \<Rightarrow> filesystem \<Rightarrow> string option \<times> filesystem"

datatype error =
    External string
  | UnableToLocatePkg string

datatype failure =
    Panic panic
  | Error error

definition loadPkg :: "extern \<Rightarrow> string \<Rightarrow> error + package" where
  "loadPkg ext pkgPath =
    (case packages_Load ext pkgPath of
       Inl err \<Rightarrow> Inl (External err)
     | Inr pkgs \<Rightarrow>
        (case find (\<lambda>p. PkgPath p = pkgPath) pkgs of
           Some p \<Rightarrow> Inr p
         | None \<Rightarrow> Inl (UnableToLocatePkg pkgPath)))"

definition newline :: string where
  "newline = [CHR 0x0A]"

definition pre :: string where
  \<open>pre = ''// Code generated by "genmethods"; DO NOT EDIT.'' @ newline\<close>

text \<open>
  \<^verbatim>\<open>printMethods\<close>. \<^verbatim>\<open>fmt.Fprintln(buf, pre)\<close> writes \<open>pre\<close> and one more newline;
  \<^verbatim>\<open>format.Node\<close> appends the rendering of the file to the same buffer.
\<close>

definition printMethods :: "extern \<Rightarrow> Gen \<Rightarrow> string \<Rightarrow> world \<Rightarrow> error option \<times> world" where
  "printMethods ext gen output w =
    (let file = \<lparr>PkgIdent = NewIdent (PkgName (pkg gen)),
                 Decls = map FuncDecl (methods gen)\<rparr>;
         buf = pre @ newline
     in case format_Node ext file of
          Inl err \<Rightarrow> (Some (External err), w)
        | Inr rendered \<Rightarrow>
           (case format_Source ext (buf @ rendered) of
              Inl err \<Rightarrow> (Some (External err), w)
            | Inr data \<Rightarrow>
               if length output > 0 then
                 (case os_WriteFile ext output data (fs w) of
                    (Some err, fs') \<Rightarrow> (Some (External err), w\<lparr>fs := fs'\<rparr>)
                  | (None, fs') \<Rightarrow> (None, w\<lparr>fs := fs'\<rparr>))
               else (None, w\<lparr>stdout := stdout w @ data\<rparr>)))"

definition genMethods :: "extern \<Rightarrow> string \<Rightarrow> string \<Rightarrow> world \<Rightarrow> failure option \<times> world" where
  "genMethods ext pkgPath output w =
    (case loadPkg ext pkgPath of
       Inl err \<Rightarrow> (Some (Error err), w)
     | Inr p \<Rightarrow>
        (case parsePkg \<lparr>pkg = p, methods = []\<rparr> of
           Inl pan \<Rightarrow> (Some (Panic pan), w)
         | Inr gen \<Rightarrow>
            (case printMethods ext gen output w of
               (Some err, w') \<Rightarrow> (Some (Error err), w')
             | (None, w') \<Rightarrow> (None, w'))))"

section \<open>Sample declarations\<close>

text \<open>
  The declarations of the specification's scenarios, as the parser hands them over, and
  a package that holds them. They are the concrete inputs of the instances below.
\<close>

definition sdlWindow :: string where
  "sdlWindow = ''*github.com/jupiterrider/purego-sdl3/sdl.Window''"

text \<open>\<^verbatim>\<open>func DestroyWindow(win *Window)\<close>, with a doc comment of two lines.\<close>

definition DestroyWindow :: funcdecl where
  "DestroyWindow =
    \<lparr>Doc = Some [\<lparr>Slash = 100, Text = ''// DestroyWindow destroys the window.''\<rparr>,
                 \<lparr>Slash = 138, Text = ''// It frees the handle.''\<rparr>],
     Recv = None,
     FuncName = \<lparr>NamePos = 167, Name = ''DestroyWindow''\<rparr>,
     FuncType =
       \<lparr>Params = [\<lparr>Names = [\<lparr>NamePos = 181, Name = ''win''\<rparr>],
                   Type = StarExpr 185 (Ident \<lparr>NamePos = 186, Name = ''Window''\<rparr>)\<rparr>],
        Results = None\<rparr>,
     Body = Some [OtherStmt 196]\<rparr>"

text \<open>\<^verbatim>\<open>func GetWindowSize(win *Window, w *int32, h *int32) bool\<close>.\<close>

definition GetWindowSize :: funcdecl where
  "GetWindowSize =
    \<lparr>Doc = None,
     Recv = None,
     FuncName = \<lparr>NamePos = 305, Name = ''GetWindowSize''\<rparr>,
     FuncType =
       \<lparr>Params = [\<lparr>Names = [\<lparr>NamePos = 319, Name = ''win''\<rparr>],
                   Type = StarExpr 323 (Ident \<lparr>NamePos = 324, Name = ''Window''\<rparr>)\<rparr>,
                  \<lparr>Names = [\<lparr>NamePos = 332, Name = ''w''\<rparr>],
                   Type = StarExpr 334 (Ident \<lparr>NamePos = 335, Name = ''int32''\<rparr>)\<rparr>,
                  \<lparr>Names = [\<lparr>NamePos = 342, Name = ''h''\<rparr>],
                   Type = StarExpr 344 (Ident \<lparr>NamePos = 345, Name = ''int32''\<rparr>)\<rparr>],
        Results = Some [\<lparr>Names = [], Type = Ident \<lparr>NamePos = 352, Name = ''bool''\<rparr>\<rparr>]\<rparr>,
     Body = Some [OtherStmt 359]\<rparr>"

text \<open>\<^verbatim>\<open>func Poll(ev *Event) bool\<close>.\<close>

definition Poll :: funcdecl where
  "Poll =
    \<lparr>Doc = None,
     Recv = None,
     FuncName = \<lparr>NamePos = 405, Name = ''Poll''\<rparr>,
     FuncType =
       \<lparr>Params = [\<lparr>Names = [\<lparr>NamePos = 410, Name = ''ev''\<rparr>],
                   Type = StarExpr 413 (Ident \<lparr>NamePos = 414, Name = ''Event''\<rparr>)\<rparr>],
        Results = Some [\<lparr>Names = [], Type = Ident \<lparr>NamePos = 421, Name = ''bool''\<rparr>\<rparr>]\<rparr>,
     Body = Some [OtherStmt 426]\<rparr>"

text \<open>\<^verbatim>\<open>func Foo(a, b int)\<close>.\<close>

definition Foo :: funcdecl where
  "Foo =
    \<lparr>Doc = None,
     Recv = None,
     FuncName = \<lparr>NamePos = 505, Name = ''Foo''\<rparr>,
     FuncType =
       \<lparr>Params = [\<lparr>Names = [\<lparr>NamePos = 509, Name = ''a''\<rparr>, \<lparr>NamePos = 512, Name = ''b''\<rparr>],
                   Type = Ident \<lparr>NamePos = 514, Name = ''int''\<rparr>\<rparr>],
        Results = None\<rparr>,
     Body = Some [OtherStmt 518]\<rparr>"

text \<open>\<^verbatim>\<open>func RaiseWindow(*Window) bool\<close>: the first parameter has no name.\<close>

definition RaiseWindow :: funcdecl where
  "RaiseWindow =
    \<lparr>Doc = None,
     Recv = None,
     FuncName = \<lparr>NamePos = 605, Name = ''RaiseWindow''\<rparr>,
     FuncType =
       \<lparr>Params = [\<lparr>Names = [],
                   Type = StarExpr 617 (Ident \<lparr>NamePos = 618, Name = ''Window''\<rparr>)\<rparr>],
        Results = Some [\<lparr>Names = [], Type = Ident \<lparr>NamePos = 626, Name = ''bool''\<rparr>\<rparr>]\<rparr>,
     Body = Some [OtherStmt 631]\<rparr>"

definition sdlTypes :: "expr \<rightharpoonup> string" where
  "sdlTypes = map_of
    [(StarExpr 185 (Ident \<lparr>NamePos = 186, Name = ''Window''\<rparr>), sdlWindow),
     (StarExpr 323 (Ident \<lparr>NamePos = 324, Name = ''Window''\<rparr>), sdlWindow),
     (StarExpr 334 (Ident \<lparr>NamePos = 335, Name = ''int32''\<rparr>), ''*int32''),
     (StarExpr 344 (Ident \<lparr>NamePos = 345, Name = ''int32''\<rparr>), ''*int32''),
     (Ident \<lparr>NamePos = 352, Name = ''bool''\<rparr>, ''bool''),
     (StarExpr 413 (Ident \<lparr>NamePos = 414, Name = ''Event''\<rparr>),
        ''*github.com/jupiterrider/purego-sdl3/sdl.Event''),
     (Ident \<lparr>NamePos = 421, Name = ''bool''\<rparr>, ''bool''),
     (Ident \<lparr>NamePos = 514, Name = ''int''\<rparr>, ''int''),
     (StarExpr 617 (Ident \<lparr>NamePos = 618, Name = ''Window''\<rparr>), sdlWindow),
     (Ident \<lparr>NamePos = 626, Name = ''bool''\<rparr>, ''bool'')]"

text \<open>A package of two files; two of its five functions qualify.\<close>

definition sdlPkg :: package where
  "sdlPkg =
    \<lparr>PkgPath = ''github.com/jupiterrider/purego-sdl3/sdl'',
     PkgName = ''sdl'',
     Syntax =
       [\<lparr>PkgIdent = \<lparr>NamePos = 9, Name = ''sdl''\<rparr>,
         Decls = [GenDecl token_IMPORT, FuncDecl DestroyWindow, FuncDecl Poll]\<rparr>,
        \<lparr>PkgIdent = \<lparr>NamePos = 209, Name = ''sdl''\<rparr>,
         Decls = [GenDecl token_TYPE, FuncDecl GetWindowSize, FuncDecl Foo,
                  FuncDecl RaiseWindow]\<rparr>],
     TypesInfo = sdlTypes\<rparr>"

text \<open>A package in which no function qualifies.\<close>

definition eventPkg :: package where
  "eventPkg =
    \<lparr>PkgPath = ''example.org/event'',
     PkgName = ''event'',
     Syntax =
       [\<lparr>PkgIdent = \<lparr>NamePos = 9, Name = ''event''\<rparr>,
         Decls = [GenDecl token_VAR, FuncDecl Poll, FuncDecl Foo]\<rparr>],
     TypesInfo = sdlTypes\<rparr>"

text \<open>
  What the specification's scenarios A and B expect:
  \<^verbatim>\<open>func (win *Window) Destroy() { DestroyWindow(win) }\<close> and
  \<^verbatim>\<open>func (win *Window) GetSize(w *int32, h *int32) bool { return GetWindowSize(win, w, h) }\<close>.
\<close>

definition Destroy :: funcdecl where
  "Destroy =
    \<lparr>Doc = Some [\<lparr>Slash = 0, Text = ''// DestroyWindow destroys the window.''\<rparr>,
                 \<lparr>Slash = 0, Text = ''// It frees the handle.''\<rparr>],
     Recv = Some [\<lparr>Names = [\<lparr>NamePos = 0, Name = ''win''\<rparr>],
                   Type = StarExpr 185 (Ident \<lparr>NamePos = 186, Name = ''Window''\<rparr>)\<rparr>],
     FuncName = \<lparr>NamePos = 0, Name = ''Destroy''\<rparr>,
     FuncType = \<lparr>Params = [], Results = None\<rparr>,
     Body = Some [ExprStmt (CallExpr (Ident \<lparr>NamePos = 167, Name = ''DestroyWindow''\<rparr>)
                              [Ident \<lparr>NamePos = 181, Name = ''win''\<rparr>])]\<rparr>"

definition GetSize :: funcdecl where
  "GetSize =
    \<lparr>Doc = Some [],
     Recv = Some [\<lparr>Names = [\<lparr>NamePos = 0, Name = ''win''\<rparr>],
                   Type = StarExpr 323 (Ident \<lparr>NamePos = 324, Name = ''Window''\<rparr>)\<rparr>],
     FuncName = \<lparr>NamePos = 0, Name = ''GetSize''\<rparr>,
     FuncType =
       \<lparr>Params = [\<lparr>Names = [\<lparr>NamePos = 332, Name = ''w''\<rparr>],
                   Type = StarExpr 334 (Ident \<lparr>NamePos = 335, Name = ''int32''\<rparr>)\<rparr>,
                  \<lparr>Names = [\<lparr>NamePos = 342, Name = ''h''\<rparr>],
                   Type = StarExpr 344 (Ident \<lparr>NamePos = 345, Name = ''int32''\<rparr>)\<rparr>],
        Results = Some [\<lparr>Names = [], Type = Ident \<lparr>NamePos = 352, Name = ''bool''\<rparr>\<rparr>]\<rparr>,
     Body = Some [ReturnStmt [CallExpr (Ident \<lparr>NamePos = 305, Name = ''GetWindowSize''\<rparr>)
                                [Ident \<lparr>NamePos = 319, Name = ''win''\<rparr>,
                                 Ident \<lparr>NamePos = 332, Name = ''w''\<rparr>,
                                 Ident \<lparr>NamePos = 342, Name = ''h''\<rparr>]]]\<rparr>"

text \<open>A package with a declaration that is neither general nor a function.\<close>

definition brokenPkg :: package where
  "brokenPkg =
    \<lparr>PkgPath = ''example.org/broken'',
     PkgName = ''broken'',
     Syntax =
       [\<lparr>PkgIdent = \<lparr>NamePos = 9, Name = ''broken''\<rparr>,
         Decls = [FuncDecl DestroyWindow, BadDecl, FuncDecl GetWindowSize]\<rparr>],
     TypesInfo = sdlTypes\<rparr>"

text \<open>
  \<^verbatim>\<open>os.WriteFile\<close> of Go's standard library opens the file with
  \<^verbatim>\<open>O_WRONLY|O_CREATE|O_TRUNC\<close>, writes the data and closes the file. Here the open
  always succeeds and empties the file, and the write stores as many bytes as the
  device still takes (\<open>space\<close>), failing when that is not all of them.
\<close>

definition go_WriteFile :: "string \<Rightarrow> string \<Rightarrow> filesystem \<Rightarrow> string option \<times> filesystem" where
  "go_WriteFile name data fsys =
    (let opened = fsys\<lparr>files := (files fsys)(name \<mapsto> [])\<rparr>;
         n = min (length data) (space opened);
         written = opened\<lparr>files := (files opened)(name \<mapsto> take n data),
                          space := space opened - n\<rparr>
     in (if n < length data then Some ''no space left on device'' else None, written))"

text \<open>
  A stand-in for the external tools, used in the instances only: the loader returns the
  given packages, the renderer prints the package clause and one line per method, and
  the formatter returns its input.
\<close>

definition renderFile :: "File \<Rightarrow> string + string" where
  "renderFile f =
    Inr (''package '' @ Name (PkgIdent f) @ newline @
         concat (map (\<lambda>d. case d of
                             FuncDecl m \<Rightarrow> newline @ ''func '' @ Name (FuncName m) @ newline
                           | _ \<Rightarrow> [])
                     (Decls f)))"

definition sampleTools :: "package list \<Rightarrow> extern" where
  "sampleTools pkgs =
    \<lparr>packages_Load = (\<lambda>pkgPath. Inr pkgs),
     format_Node = renderFile,
     format_Source = Inr,
     os_WriteFile = go_WriteFile\<rparr>"

definition emptyWorld :: world where
  "emptyWorld = \<lparr>fs = \<lparr>files = Map.empty, space = 1000\<rparr>, stdout = []\<rparr>"

text \<open>A world whose device takes ten more bytes, with an older output file on it.\<close>

definition fullDisk :: world where
  "fullDisk =
    \<lparr>fs = \<lparr>files = [''methods.go'' \<mapsto> ''package old''], space = 10\<rparr>, stdout = []\<rparr>"

section \<open>Notions used in the statements\<close>

text \<open>
  The list of methods one declaration adds, whatever was generated before it: the
  methods \<^verbatim>\<open>parseDecl\<close> leaves when it starts from none.
\<close>

definition contribution :: "package \<Rightarrow> decl \<Rightarrow> funcdecl list" where
  "contribution p decl =
    (case parseDecl \<lparr>pkg = p, methods = []\<rparr> decl of
       Inl _ \<Rightarrow> []
     | Inr gen \<Rightarrow> methods gen)"

text \<open>
  The receiver of a method is a single field whose type resolves to a key of
  \<open>validMethodTypes\<close> (with the value \<^verbatim>\<open>true\<close>, as all six have).
\<close>

definition receiverTypeInAllowList :: "package \<Rightarrow> funcdecl \<Rightarrow> bool" where
  "receiverTypeInAllowList p m =
    (case Recv m of
       Some [recv] \<Rightarrow>
         (case TypesInfo p (Type recv) of
            Some typ \<Rightarrow> validMethodTypes typ = Some True
          | None \<Rightarrow> False)
     | _ \<Rightarrow> False)"

text \<open>
  The classifier as the specification words it, with its third rule rejecting a first
  parameter slot of more than one name. \<open>True\<close> is "accept".
\<close>

definition classifier_as_stated :: "package \<Rightarrow> funcdecl \<Rightarrow> bool" where
  "classifier_as_stated p decl =
    (if Recv decl \<noteq> None then False
     else if Params (FuncType decl) = [] then False
     else if length (Names (hd (Params (FuncType decl)))) > 1 then False
     else if (case TypesInfo p (Type (hd (Params (FuncType decl)))) of
                Some typ \<Rightarrow> validMethodTypes typ \<noteq> Some True
              | None \<Rightarrow> True) then False
     else True)"

text \<open>What the code does with a declaration: it adds a method, or leaves the state alone.\<close>

definition synthesizes :: "Gen \<Rightarrow> funcdecl \<Rightarrow> bool" where
  "synthesizes gen decl =
    (case parseFuncDecl gen decl of
       Inl _ \<Rightarrow> False
     | Inr gen' \<Rightarrow> length (methods gen') = Suc (length (methods gen)))"

text \<open>
  An all-or-nothing write: afterwards the destination holds what it held before, or
  all of the new data.
\<close>

definition all_or_nothing :: "string \<Rightarrow> string \<Rightarrow> filesystem \<Rightarrow> filesystem \<Rightarrow> bool" where
  "all_or_nothing output data before after =
    (files after output = files before output \<or> files after output = Some data)"

section \<open>The synthesizer\<close>

lemma genMethodWith_Inr:
  assumes "genMethodWith rename gen funcDecl = Inr gen'"
  shows "\<exists>firstParam rest firstParamName names.
           Params (FuncType funcDecl) = firstParam # rest \<and>
           Names firstParam = firstParamName # names \<and>
           gen' = gen\<lparr>methods :=
                    methods gen @ [methodDecl rename funcDecl firstParam firstParamName]\<rparr>"
  using assms by (auto simp: genMethodWith_def split: list.splits)

lemma methodDecl_Body:
  "Body (methodDecl rename funcDecl firstParam firstParamName) =
     Some [if (case Results (FuncType funcDecl) of None \<Rightarrow> False | Some rs \<Rightarrow> rs \<noteq> [])
           then ReturnStmt [CallExpr (Ident (FuncName funcDecl))
                  (map Ident (concat (map Names (Params (FuncType funcDecl)))))]
           else ExprStmt (CallExpr (Ident (FuncName funcDecl))
                  (map Ident (concat (map Names (Params (FuncType funcDecl))))))]"
  by (simp add: methodDecl_def Let_def map_concat comp_def split: option.splits)

text \<open>
  C3. The body of every method \<^verbatim>\<open>genMethod\<close> appends is built around one call. Its
  callee is the identifier of the original function (not the renamed one), and its
  arguments are the names of all parameters of the original declaration, the first
  included, from left to right; there are as many arguments as the original declaration
  has parameter names.
\<close>
theorem genMethod_forwards_every_parameter:
  assumes "genMethod gen funcDecl = Inr gen'"
  shows "\<exists>m args. methods gen' = methods gen @ [m] \<and>
           (Body m = Some [ReturnStmt [CallExpr (Ident (FuncName funcDecl)) args]] \<or>
            Body m = Some [ExprStmt (CallExpr (Ident (FuncName funcDecl)) args)]) \<and>
           args = map Ident (concat (map Names (Params (FuncType funcDecl)))) \<and>
           length args = sum_list (map (\<lambda>paramField. length (Names paramField))
                                       (Params (FuncType funcDecl)))"
proof -
  from assms obtain firstParam firstParamName where
    gen': "gen' = gen\<lparr>methods :=
             methods gen @ [methodDecl renameMethod funcDecl firstParam firstParamName]\<rparr>"
    unfolding genMethod_def by (blast dest: genMethodWith_Inr)
  let ?m = "methodDecl renameMethod funcDecl firstParam firstParamName"
  let ?args = "map Ident (concat (map Names (Params (FuncType funcDecl))))"
  have "methods gen' = methods gen @ [?m]"
    using gen' by simp
  moreover have "Body ?m = Some [ReturnStmt [CallExpr (Ident (FuncName funcDecl)) ?args]] \<or>
                 Body ?m = Some [ExprStmt (CallExpr (Ident (FuncName funcDecl)) ?args)]"
    by (simp add: methodDecl_Body)
  moreover have "length ?args = sum_list (map (\<lambda>paramField. length (Names paramField))
                                              (Params (FuncType funcDecl)))"
    by (simp add: length_concat comp_def)
  ultimately show ?thesis by blast
qed


lemma genMethod_Inr:
  assumes "genMethod gen funcDecl = Inr gen'"
  shows "\<exists>firstParam firstParamName.
           gen' = gen\<lparr>methods :=
                    methods gen @ [methodDecl renameMethod funcDecl firstParam firstParamName]\<rparr>"
  using assms unfolding genMethod_def by (blast dest: genMethodWith_Inr)

text \<open>
  C4. The body of every method \<^verbatim>\<open>genMethod\<close> appends is one statement: a return of
  the forwarding call when the original declaration has a result list that is not empty,
  and the call as an expression statement when it has no result list or an empty one.
\<close>
theorem genMethod_body_single_statement:
  assumes "genMethod gen funcDecl = Inr gen'"
  shows "\<exists>m call. methods gen' = methods gen @ [m] \<and>
           call = CallExpr (Ident (FuncName funcDecl))
                    (map Ident (concat (map Names (Params (FuncType funcDecl))))) \<and>
           (case Results (FuncType funcDecl) of
              None \<Rightarrow> Body m = Some [ExprStmt call]
            | Some rs \<Rightarrow>
                if rs = [] then Body m = Some [ExprStmt call]
                else Body m = Some [ReturnStmt [call]])"
proof -
  from genMethod_Inr [OF assms] obtain firstParam firstParamName where
    gen': "gen' = gen\<lparr>methods :=
             methods gen @ [methodDecl renameMethod funcDecl firstParam firstParamName]\<rparr>"
    by blast
  let ?m = "methodDecl renameMethod funcDecl firstParam firstParamName"
  have "methods gen' = methods gen @ [?m]"
    using gen' by simp
  then show ?thesis
    by (auto simp: methodDecl_Body split: option.splits)
qed

lemma methodDecl_Doc:
  "Doc (methodDecl rename funcDecl firstParam firstParamName) =
     Some (case Doc funcDecl of
             None \<Rightarrow> []
           | Some cs \<Rightarrow> map (\<lambda>c. \<lparr>Slash = 0, Text = Text c\<rparr>) cs)"
  by (simp add: methodDecl_def Let_def)

text \<open>
  C9. When the original declaration has a doc comment, the method's doc comment is a new
  group with the same texts, comment by comment and in the same order, and each of its
  comments has the position \<^verbatim>\<open>0\<close> (no position) in place of the original one.
\<close>
theorem genMethod_copies_doc_comment:
  assumes "genMethod gen funcDecl = Inr gen'" and "Doc funcDecl = Some cs"
  shows "\<exists>m cs'. methods gen' = methods gen @ [m] \<and> Doc m = Some cs' \<and>
           map Text cs' = map Text cs \<and> (\<forall>c \<in> set cs'. Slash c = 0)"
proof -
  from genMethod_Inr [OF assms(1)] obtain firstParam firstParamName where
    gen': "gen' = gen\<lparr>methods :=
             methods gen @ [methodDecl renameMethod funcDecl firstParam firstParamName]\<rparr>"
    by blast
  let ?m = "methodDecl renameMethod funcDecl firstParam firstParamName"
  let ?cs' = "map (\<lambda>c. \<lparr>Slash = 0, Text = Text c\<rparr>) cs"
  have "methods gen' = methods gen @ [?m]"
    using gen' by simp
  moreover have "Doc ?m = Some ?cs'"
    using assms(2) by (simp add: methodDecl_Doc)
  moreover have "map Text ?cs' = map Text cs"
    by (simp add: comp_def)
  moreover have "\<forall>c \<in> set ?cs'. Slash c = 0"
    by auto
  ultimately show ?thesis by blast
qed

lemma methodDecl_rename:
  "methodDecl rename funcDecl firstParam firstParamName =
     (methodDecl Map.empty funcDecl firstParam firstParamName)
       \<lparr>FuncName := NewIdent (case rename (Name (FuncName funcDecl)) of
                                 Some newMethodName \<Rightarrow> newMethodName
                               | None \<Rightarrow> Name (FuncName funcDecl))\<rparr>"
  by (simp add: methodDecl_def Let_def)

lemma methodDecl_reads_own_name:
  assumes "rename (Name (FuncName funcDecl)) = rename' (Name (FuncName funcDecl))"
  shows "methodDecl rename funcDecl firstParam firstParamName =
         methodDecl rename' funcDecl firstParam firstParamName"
  using assms by (simp add: methodDecl_def)

text \<open>
  C5. When the identifier of the original function is a key of \<open>renameMethod\<close>, the
  method \<^verbatim>\<open>genMethod\<close> appends is the method built with an empty renaming table, which
  keeps the original identifier, with its name replaced by the mapped identifier: doc
  comment, receiver, parameters, results and body are the same, and the callee of the
  forwarding call is still the original identifier. The table is read at the function's
  own identifier only: two tables that agree there give the same result.
\<close>
theorem genMethod_renaming_changes_only_the_name:
  assumes "genMethod gen funcDecl = Inr gen'"
    and "renameMethod (Name (FuncName funcDecl)) = Some newMethodName"
  shows "\<exists>m gen0 m0 args.
           methods gen' = methods gen @ [m] \<and>
           genMethodWith Map.empty gen funcDecl = Inr gen0 \<and>
           methods gen0 = methods gen @ [m0] \<and>
           FuncName m0 = NewIdent (Name (FuncName funcDecl)) \<and>
           m = m0\<lparr>FuncName := NewIdent newMethodName\<rparr> \<and>
           (Body m = Some [ReturnStmt [CallExpr (Ident (FuncName funcDecl)) args]] \<or>
            Body m = Some [ExprStmt (CallExpr (Ident (FuncName funcDecl)) args)]) \<and>
           (\<forall>rename rename'.
              rename (Name (FuncName funcDecl)) = rename' (Name (FuncName funcDecl)) \<longrightarrow>
              genMethodWith rename gen funcDecl = genMethodWith rename' gen funcDecl)"
proof -
  from assms(1) obtain firstParam rest firstParamName names where
    params: "Params (FuncType funcDecl) = firstParam # rest" and
    names: "Names firstParam = firstParamName # names" and
    gen': "gen' = gen\<lparr>methods :=
             methods gen @ [methodDecl renameMethod funcDecl firstParam firstParamName]\<rparr>"
    unfolding genMethod_def by (blast dest: genMethodWith_Inr)
  let ?m = "methodDecl renameMethod funcDecl firstParam firstParamName"
  let ?plain = "methodDecl Map.empty funcDecl firstParam firstParamName"
  let ?genp = "gen\<lparr>methods := methods gen @ [?plain]\<rparr>"
  let ?args = "map Ident (concat (map Names (Params (FuncType funcDecl))))"
  have 1: "methods gen' = methods gen @ [?m]"
    using gen' by simp
  have 2: "genMethodWith Map.empty gen funcDecl = Inr ?genp"
    using params names by (simp add: genMethodWith_def)
  have 3: "methods ?genp = methods gen @ [?plain]"
    by simp
  have 4: "FuncName ?plain = NewIdent (Name (FuncName funcDecl))"
    by (simp add: methodDecl_def Let_def)
  have 5: "?m = ?plain\<lparr>FuncName := NewIdent newMethodName\<rparr>"
    using assms(2) by (simp add: methodDecl_rename [of renameMethod])
  have 6: "Body ?m = Some [ReturnStmt [CallExpr (Ident (FuncName funcDecl)) ?args]] \<or>
           Body ?m = Some [ExprStmt (CallExpr (Ident (FuncName funcDecl)) ?args)]"
    by (simp add: methodDecl_Body)
  have 7: "\<forall>rename rename'.
             rename (Name (FuncName funcDecl)) = rename' (Name (FuncName funcDecl)) \<longrightarrow>
             genMethodWith rename gen funcDecl = genMethodWith rename' gen funcDecl"
  proof (intro allI impI)
    fix rename rename' :: "string \<rightharpoonup> string"
    assume "rename (Name (FuncName funcDecl)) = rename' (Name (FuncName funcDecl))"
    then have "methodDecl rename funcDecl firstParam firstParamName =
               methodDecl rename' funcDecl firstParam firstParamName"
      by (rule methodDecl_reads_own_name)
    then show "genMethodWith rename gen funcDecl = genMethodWith rename' gen funcDecl"
      using params names by (simp add: genMethodWith_def)
  qed
  from 1 2 3 4 5 6 7 show ?thesis by blast
qed

subsection \<open>Instances on the sample declarations\<close>

lemma genMethod_DestroyWindow:
  "genMethod \<lparr>pkg = p, methods = ms\<rparr> DestroyWindow = Inr \<lparr>pkg = p, methods = ms @ [Destroy]\<rparr>"
  by (simp add: genMethod_def genMethodWith_def methodDecl_def DestroyWindow_def Destroy_def
      renameMethod_def NewIdent_def Let_def)

lemma genMethod_GetWindowSize:
  "genMethod \<lparr>pkg = p, methods = ms\<rparr> GetWindowSize = Inr \<lparr>pkg = p, methods = ms @ [GetSize]\<rparr>"
  by (simp add: genMethod_def genMethodWith_def methodDecl_def GetWindowSize_def GetSize_def
      renameMethod_def NewIdent_def Let_def)

theorem genMethod_forwards_every_parameter_witness:
  "genMethod \<lparr>pkg = sdlPkg, methods = []\<rparr> GetWindowSize =
     Inr \<lparr>pkg = sdlPkg, methods = [GetSize]\<rparr> \<and>
   (\<exists>args. Body GetSize =
        Some [ReturnStmt [CallExpr (Ident \<lparr>NamePos = 305, Name = ''GetWindowSize''\<rparr>) args]] \<and>
      args = [Ident \<lparr>NamePos = 319, Name = ''win''\<rparr>, Ident \<lparr>NamePos = 332, Name = ''w''\<rparr>,
              Ident \<lparr>NamePos = 342, Name = ''h''\<rparr>] \<and>
      length args = 3)"
proof -
  have h: "genMethod \<lparr>pkg = sdlPkg, methods = []\<rparr> GetWindowSize =
             Inr \<lparr>pkg = sdlPkg, methods = [GetSize]\<rparr>"
    using genMethod_GetWindowSize [of sdlPkg "[]"] by simp
  show ?thesis
    using h genMethod_forwards_every_parameter [OF h]
    by (simp add: GetWindowSize_def GetSize_def)
qed

theorem genMethod_body_single_statement_witness:
  "genMethod \<lparr>pkg = sdlPkg, methods = []\<rparr> DestroyWindow =
     Inr \<lparr>pkg = sdlPkg, methods = [Destroy]\<rparr> \<and>
   Results (FuncType DestroyWindow) = None \<and>
   Body Destroy =
     Some [ExprStmt (CallExpr (Ident \<lparr>NamePos = 167, Name = ''DestroyWindow''\<rparr>)
                       [Ident \<lparr>NamePos = 181, Name = ''win''\<rparr>])] \<and>
   genMethod \<lparr>pkg = sdlPkg, methods = [Destroy]\<rparr> GetWindowSize =
     Inr \<lparr>pkg = sdlPkg, methods = [Destroy, GetSize]\<rparr> \<and>
   Results (FuncType GetWindowSize) \<noteq> None \<and> Results (FuncType GetWindowSize) \<noteq> Some [] \<and>
   Body GetSize =
     Some [ReturnStmt [CallExpr (Ident \<lparr>NamePos = 305, Name = ''GetWindowSize''\<rparr>)
                         [Ident \<lparr>NamePos = 319, Name = ''win''\<rparr>,
                          Ident \<lparr>NamePos = 332, Name = ''w''\<rparr>,
                          Ident \<lparr>NamePos = 342, Name = ''h''\<rparr>]]]"
proof -
  have a: "genMethod \<lparr>pkg = sdlPkg, methods = []\<rparr> DestroyWindow =
             Inr \<lparr>pkg = sdlPkg, methods = [Destroy]\<rparr>"
    using genMethod_DestroyWindow [of sdlPkg "[]"] by simp
  have b: "genMethod \<lparr>pkg = sdlPkg, methods = [Destroy]\<rparr> GetWindowSize =
             Inr \<lparr>pkg = sdlPkg, methods = [Destroy, GetSize]\<rparr>"
    using genMethod_GetWindowSize [of sdlPkg "[Destroy]"] by simp
  have "Body Destroy =
     Some [ExprStmt (CallExpr (Ident \<lparr>NamePos = 167, Name = ''DestroyWindow''\<rparr>)
                       [Ident \<lparr>NamePos = 181, Name = ''win''\<rparr>])]"
    using genMethod_body_single_statement [OF a] by (simp add: DestroyWindow_def)
  moreover have "Body GetSize =
     Some [ReturnStmt [CallExpr (Ident \<lparr>NamePos = 305, Name = ''GetWindowSize''\<rparr>)
                         [Ident \<lparr>NamePos = 319, Name = ''win''\<rparr>,
                          Ident \<lparr>NamePos = 332, Name = ''w''\<rparr>,
                          Ident \<lparr>NamePos = 342, Name = ''h''\<rparr>]]]"
    using genMethod_body_single_statement [OF b] by (simp add: GetWindowSize_def)
  ultimately show ?thesis
    using a b by (simp add: DestroyWindow_def GetWindowSize_def)
qed

theorem genMethod_copies_doc_comment_witness:
  "genMethod \<lparr>pkg = sdlPkg, methods = []\<rparr> DestroyWindow =
     Inr \<lparr>pkg = sdlPkg, methods = [Destroy]\<rparr> \<and>
   Doc DestroyWindow =
     Some [\<lparr>Slash = 100, Text = ''// DestroyWindow destroys the window.''\<rparr>,
           \<lparr>Slash = 138, Text = ''// It frees the handle.''\<rparr>] \<and>
   (\<exists>cs'. Doc Destroy = Some cs' \<and>
      map Text cs' = [''// DestroyWindow destroys the window.'', ''// It frees the handle.''] \<and>
      (\<forall>c \<in> set cs'. Slash c = 0))"
proof -
  have a: "genMethod \<lparr>pkg = sdlPkg, methods = []\<rparr> DestroyWindow =
             Inr \<lparr>pkg = sdlPkg, methods = [Destroy]\<rparr>"
    using genMethod_DestroyWindow [of sdlPkg "[]"] by simp
  have d: "Doc DestroyWindow =
     Some [\<lparr>Slash = 100, Text = ''// DestroyWindow destroys the window.''\<rparr>,
           \<lparr>Slash = 138, Text = ''// It frees the handle.''\<rparr>]"
    by (simp add: DestroyWindow_def)
  show ?thesis
    using a d genMethod_copies_doc_comment [OF a d] by simp
qed

theorem genMethod_renaming_changes_only_the_name_witness:
  "genMethod \<lparr>pkg = sdlPkg, methods = []\<rparr> DestroyWindow =
     Inr \<lparr>pkg = sdlPkg, methods = [Destroy]\<rparr> \<and>
   renameMethod (Name (FuncName DestroyWindow)) = Some ''Destroy'' \<and>
   (\<exists>m0. genMethodWith Map.empty \<lparr>pkg = sdlPkg, methods = []\<rparr> DestroyWindow =
            Inr \<lparr>pkg = sdlPkg, methods = [m0]\<rparr> \<and>
          Name (FuncName m0) = ''DestroyWindow'' \<and>
          Destroy = m0\<lparr>FuncName := NewIdent ''Destroy''\<rparr>) \<and>
   genMethodWith [''DestroyWindow'' \<mapsto> ''Destroy''] \<lparr>pkg = sdlPkg, methods = []\<rparr> DestroyWindow =
     Inr \<lparr>pkg = sdlPkg, methods = [Destroy]\<rparr>"
proof -
  let ?gen = "\<lparr>pkg = sdlPkg, methods = []\<rparr>"
  have a: "genMethod ?gen DestroyWindow = Inr \<lparr>pkg = sdlPkg, methods = [Destroy]\<rparr>"
    using genMethod_DestroyWindow [of sdlPkg "[]"] by simp
  have r: "renameMethod (Name (FuncName DestroyWindow)) = Some ''Destroy''"
    by (simp add: DestroyWindow_def renameMethod_def)
  note inst = genMethod_renaming_changes_only_the_name [OF a r]
  from inst obtain gen0 m0 where
    "genMethodWith Map.empty ?gen DestroyWindow = Inr gen0"
    "methods gen0 = [m0]" "FuncName m0 = NewIdent (Name (FuncName DestroyWindow))"
    "Destroy = m0\<lparr>FuncName := NewIdent ''Destroy''\<rparr>"
    by auto
  moreover from this have "gen0 = \<lparr>pkg = sdlPkg, methods = [m0]\<rparr>"
    by (auto simp: genMethodWith_def DestroyWindow_def split: list.splits)
  ultimately have 1: "\<exists>m0. genMethodWith Map.empty ?gen DestroyWindow =
            Inr \<lparr>pkg = sdlPkg, methods = [m0]\<rparr> \<and>
          Name (FuncName m0) = ''DestroyWindow'' \<and>
          Destroy = m0\<lparr>FuncName := NewIdent ''Destroy''\<rparr>"
    by (auto simp: NewIdent_def DestroyWindow_def)
  have "renameMethod (Name (FuncName DestroyWindow)) =
        [''DestroyWindow'' \<mapsto> ''Destroy''] (Name (FuncName DestroyWindow))"
    using r by (simp add: DestroyWindow_def)
  with inst have "genMethodWith renameMethod ?gen DestroyWindow =
                 genMethodWith [''DestroyWindow'' \<mapsto> ''Destroy''] ?gen DestroyWindow"
    by blast
  with a have 2: "genMethodWith [''DestroyWindow'' \<mapsto> ''Destroy''] ?gen DestroyWindow =
                    Inr \<lparr>pkg = sdlPkg, methods = [Destroy]\<rparr>"
    by (simp add: genMethod_def)
  from a r 1 2 show ?thesis
    by (intro conjI)
qed

section \<open>The classifier\<close>

lemma isValidMethodType_iff:
  "isValidMethodType typ \<longleftrightarrow> validMethodTypes typ = Some True"
  by (simp add: isValidMethodType_def split: option.splits)

lemma parseFuncDecl_accept:
  assumes "Recv decl = None"
    and "Params (FuncType decl) = firstParam # rest"
    and "Names firstParam = [firstParamName]"
    and "TypesInfo (pkg gen) (Type firstParam) = Some typ"
    and "validMethodTypes typ = Some True"
  shows "parseFuncDecl gen decl =
           Inr (gen\<lparr>methods :=
                  methods gen @ [methodDecl renameMethod decl firstParam firstParamName]\<rparr>)"
  using assms
  by (simp add: parseFuncDecl_def isValidMethodType_iff genMethod_def genMethodWith_def)

lemma parseFuncDecl_Inr:
  assumes "parseFuncDecl gen decl = Inr gen'"
  shows "gen' = gen \<or>
         (\<exists>firstParam rest firstParamName typ.
            Recv decl = None \<and>
            Params (FuncType decl) = firstParam # rest \<and>
            Names firstParam = [firstParamName] \<and>
            TypesInfo (pkg gen) (Type firstParam) = Some typ \<and>
            validMethodTypes typ = Some True \<and>
            gen' = gen\<lparr>methods :=
                     methods gen @ [methodDecl renameMethod decl firstParam firstParamName]\<rparr>)"
proof (cases "gen' = gen")
  case True
  then show ?thesis by simp
next
  case False
  with assms have recv: "Recv decl = None"
    by (auto simp: parseFuncDecl_def split: if_splits)
  from False assms recv obtain firstParam rest where
    params: "Params (FuncType decl) = firstParam # rest"
    by (cases "Params (FuncType decl)") (auto simp: parseFuncDecl_def)
  from False assms recv params obtain firstParamName where
    nms: "Names firstParam = [firstParamName]"
    by (cases "Names firstParam") (auto simp: parseFuncDecl_def split: if_splits)
  from False assms recv params nms obtain ty where
    ty: "TypesInfo (pkg gen) (Type firstParam) = Some ty"
    by (cases "TypesInfo (pkg gen) (Type firstParam)") (auto simp: parseFuncDecl_def)
  from False assms recv params nms ty have valid: "validMethodTypes ty = Some True"
    by (auto simp: parseFuncDecl_def isValidMethodType_iff split: if_splits)
  from parseFuncDecl_accept [OF recv params nms ty valid] assms
  have "gen' = gen\<lparr>methods :=
                  methods gen @ [methodDecl renameMethod decl firstParam firstParamName]\<rparr>"
    by simp
  with recv params nms ty valid show ?thesis by blast
qed

lemma parseFuncDecl_no_index_panic:
  "parseFuncDecl gen decl \<noteq> Inl IndexOutOfRange"
proof (cases "Params (FuncType decl)")
  case Nil
  then show ?thesis by (simp add: parseFuncDecl_def)
next
  case (Cons firstParam rest)
  then show ?thesis
    by (cases "Names firstParam")
       (auto simp: parseFuncDecl_def genMethod_def genMethodWith_def split: option.splits)
qed

text \<open>
  C10. A function declaration whose first parameter slot has no name is left out by the
  classifier: the test is that the slot has exactly one name. So \<^verbatim>\<open>parseFuncDecl\<close>
  never fails with an index out of range, and every declaration for which it adds a
  method has a first parameter slot with exactly one name, on which \<^verbatim>\<open>genMethod\<close>
  returns that result.
\<close>
theorem parseFuncDecl_first_parameter_has_one_name:
  "(Params (FuncType decl) \<noteq> [] \<and> Names (hd (Params (FuncType decl))) = [] \<longrightarrow>
      parseFuncDecl gen decl = Inr gen) \<and>
   parseFuncDecl gen decl \<noteq> Inl IndexOutOfRange \<and>
   (\<forall>gen'. parseFuncDecl gen decl = Inr gen' \<and> gen' \<noteq> gen \<longrightarrow>
      length (Names (hd (Params (FuncType decl)))) = 1 \<and> genMethod gen decl = Inr gen')"
proof (intro conjI allI impI)
  assume "Params (FuncType decl) \<noteq> [] \<and> Names (hd (Params (FuncType decl))) = []"
  then show "parseFuncDecl gen decl = Inr gen"
    by (cases "Params (FuncType decl)") (simp_all add: parseFuncDecl_def)
next
  show "parseFuncDecl gen decl \<noteq> Inl IndexOutOfRange"
    by (rule parseFuncDecl_no_index_panic)
next
  fix gen'
  assume a: "parseFuncDecl gen decl = Inr gen' \<and> gen' \<noteq> gen"
  with parseFuncDecl_Inr [of gen decl gen'] obtain firstParam rest firstParamName where
    params: "Params (FuncType decl) = firstParam # rest" and
    nms: "Names firstParam = [firstParamName]" and
    gen': "gen' = gen\<lparr>methods :=
             methods gen @ [methodDecl renameMethod decl firstParam firstParamName]\<rparr>"
    by blast
  from params nms show "length (Names (hd (Params (FuncType decl)))) = 1"
    by simp
  from params nms gen' show "genMethod gen decl = Inr gen'"
    by (simp add: genMethod_def genMethodWith_def)
qed

lemma parseFuncDecl_RaiseWindow:
  "parseFuncDecl gen RaiseWindow = Inr gen"
  by (simp add: parseFuncDecl_def RaiseWindow_def)

lemma parseFuncDecl_DestroyWindow:
  assumes "TypesInfo p = sdlTypes"
  shows "parseFuncDecl \<lparr>pkg = p, methods = ms\<rparr> DestroyWindow =
           Inr \<lparr>pkg = p, methods = ms @ [Destroy]\<rparr>"
proof -
  have "parseFuncDecl \<lparr>pkg = p, methods = ms\<rparr> DestroyWindow =
        genMethod \<lparr>pkg = p, methods = ms\<rparr> DestroyWindow"
    using assms
    by (simp add: parseFuncDecl_def isValidMethodType_def DestroyWindow_def
        sdlTypes_def sdlWindow_def validMethodTypes_def Let_def)
  then show ?thesis
    by (simp only: genMethod_DestroyWindow)
qed

lemma parseFuncDecl_GetWindowSize:
  assumes "TypesInfo p = sdlTypes"
  shows "parseFuncDecl \<lparr>pkg = p, methods = ms\<rparr> GetWindowSize =
           Inr \<lparr>pkg = p, methods = ms @ [GetSize]\<rparr>"
proof -
  have "parseFuncDecl \<lparr>pkg = p, methods = ms\<rparr> GetWindowSize =
        genMethod \<lparr>pkg = p, methods = ms\<rparr> GetWindowSize"
    using assms
    by (simp add: parseFuncDecl_def isValidMethodType_def GetWindowSize_def
        sdlTypes_def sdlWindow_def validMethodTypes_def Let_def)
  then show ?thesis
    by (simp only: genMethod_GetWindowSize)
qed

lemma parseFuncDecl_Poll:
  assumes "TypesInfo (pkg gen) = sdlTypes"
  shows "parseFuncDecl gen Poll = Inr gen"
  using assms
  by (simp add: parseFuncDecl_def isValidMethodType_def Poll_def
      sdlTypes_def sdlWindow_def validMethodTypes_def Let_def)

lemma parseFuncDecl_Foo:
  "parseFuncDecl gen Foo = Inr gen"
  by (simp add: parseFuncDecl_def Foo_def)

lemma TypesInfo_samples:
  "TypesInfo sdlPkg = sdlTypes" "TypesInfo eventPkg = sdlTypes" "TypesInfo brokenPkg = sdlTypes"
  by (simp_all add: sdlPkg_def eventPkg_def brokenPkg_def)

theorem parseFuncDecl_first_parameter_has_one_name_witness:
  "Params (FuncType RaiseWindow) \<noteq> [] \<and> Names (hd (Params (FuncType RaiseWindow))) = [] \<and>
   parseFuncDecl \<lparr>pkg = sdlPkg, methods = []\<rparr> RaiseWindow = Inr \<lparr>pkg = sdlPkg, methods = []\<rparr> \<and>
   parseFuncDecl \<lparr>pkg = sdlPkg, methods = []\<rparr> DestroyWindow =
     Inr \<lparr>pkg = sdlPkg, methods = [Destroy]\<rparr> \<and>
   \<lparr>pkg = sdlPkg, methods = [Destroy]\<rparr> \<noteq> \<lparr>pkg = sdlPkg, methods = []\<rparr> \<and>
   length (Names (hd (Params (FuncType DestroyWindow)))) = 1 \<and>
   genMethod \<lparr>pkg = sdlPkg, methods = []\<rparr> DestroyWindow =
     Inr \<lparr>pkg = sdlPkg, methods = [Destroy]\<rparr>"
proof -
  have r: "Params (FuncType RaiseWindow) \<noteq> [] \<and> Names (hd (Params (FuncType RaiseWindow))) = []"
    by (simp add: RaiseWindow_def)
  have d: "parseFuncDecl \<lparr>pkg = sdlPkg, methods = []\<rparr> DestroyWindow =
             Inr \<lparr>pkg = sdlPkg, methods = [Destroy]\<rparr> \<and>
           \<lparr>pkg = sdlPkg, methods = [Destroy]\<rparr> \<noteq> \<lparr>pkg = sdlPkg, methods = []\<rparr>"
    using parseFuncDecl_DestroyWindow [of sdlPkg "[]"] by (simp add: TypesInfo_samples)
  from r parseFuncDecl_first_parameter_has_one_name
    [of RaiseWindow "\<lparr>pkg = sdlPkg, methods = []\<rparr>"]
  have 1: "parseFuncDecl \<lparr>pkg = sdlPkg, methods = []\<rparr> RaiseWindow =
             Inr \<lparr>pkg = sdlPkg, methods = []\<rparr>"
    by blast
  from d parseFuncDecl_first_parameter_has_one_name
    [of DestroyWindow "\<lparr>pkg = sdlPkg, methods = []\<rparr>"]
  have 2: "length (Names (hd (Params (FuncType DestroyWindow)))) = 1 \<and>
           genMethod \<lparr>pkg = sdlPkg, methods = []\<rparr> DestroyWindow =
             Inr \<lparr>pkg = sdlPkg, methods = [Destroy]\<rparr>"
    by blast
  from r d 1 2 show ?thesis by blast
qed

text \<open>
  C2, amended. \<^verbatim>\<open>parseFuncDecl\<close> applies these rules in order and stops at the first
  that applies: it skips a declaration that has a receiver; it skips one with no
  parameters; it skips one whose first parameter slot does not declare exactly one name
  (none, or more than one); it skips one whose first parameter's type resolves to a
  string that is not a key of \<open>validMethodTypes\<close>; otherwise it appends the wrapper. (When
  the type information has no entry for that type, the lookup panics.) Hence a method is
  added exactly when none of the four rules applies.
\<close>
theorem parseFuncDecl_rules_in_order:
  "parseFuncDecl gen decl =
     (if Recv decl \<noteq> None then Inr gen
      else if Params (FuncType decl) = [] then Inr gen
      else if length (Names (hd (Params (FuncType decl)))) \<noteq> 1 then Inr gen
      else case TypesInfo (pkg gen) (Type (hd (Params (FuncType decl)))) of
             None \<Rightarrow> Inl NilDereference
           | Some firstParamType \<Rightarrow>
               if validMethodTypes firstParamType \<noteq> Some True then Inr gen
               else Inr (gen\<lparr>methods := methods gen @
                      [methodDecl renameMethod decl (hd (Params (FuncType decl)))
                         (hd (Names (hd (Params (FuncType decl)))))]\<rparr>)) \<and>
   (synthesizes gen decl \<longleftrightarrow>
      Recv decl = None \<and> Params (FuncType decl) \<noteq> [] \<and>
      length (Names (hd (Params (FuncType decl)))) = 1 \<and>
      (\<exists>firstParamType.
         TypesInfo (pkg gen) (Type (hd (Params (FuncType decl)))) = Some firstParamType \<and>
         validMethodTypes firstParamType = Some True))"
proof -
  have eq: "parseFuncDecl gen decl =
     (if Recv decl \<noteq> None then Inr gen
      else if Params (FuncType decl) = [] then Inr gen
      else if length (Names (hd (Params (FuncType decl)))) \<noteq> 1 then Inr gen
      else case TypesInfo (pkg gen) (Type (hd (Params (FuncType decl)))) of
             None \<Rightarrow> Inl NilDereference
           | Some firstParamType \<Rightarrow>
               if validMethodTypes firstParamType \<noteq> Some True then Inr gen
               else Inr (gen\<lparr>methods := methods gen @
                      [methodDecl renameMethod decl (hd (Params (FuncType decl)))
                         (hd (Names (hd (Params (FuncType decl)))))]\<rparr>))"
  proof (cases "Params (FuncType decl)")
    case Nil
    then show ?thesis by (simp add: parseFuncDecl_def)
  next
    case (Cons firstParam rest)
    show ?thesis
    proof (cases "Names firstParam")
      case Nil
      with Cons show ?thesis by (simp add: parseFuncDecl_def)
    next
      case (Cons firstParamName more)
      with \<open>Params (FuncType decl) = firstParam # rest\<close> show ?thesis
        by (simp add: parseFuncDecl_def isValidMethodType_iff genMethod_def genMethodWith_def
            split: option.splits)
    qed
  qed
  have "synthesizes gen decl \<longleftrightarrow>
      Recv decl = None \<and> Params (FuncType decl) \<noteq> [] \<and>
      length (Names (hd (Params (FuncType decl)))) = 1 \<and>
      (\<exists>firstParamType.
         TypesInfo (pkg gen) (Type (hd (Params (FuncType decl)))) = Some firstParamType \<and>
         validMethodTypes firstParamType = Some True)"
    unfolding synthesizes_def eq by (simp split: option.splits)
  with eq show ?thesis by (rule conjI)
qed

theorem parseFuncDecl_rules_in_order_witness:
  "parseFuncDecl \<lparr>pkg = sdlPkg, methods = []\<rparr> DestroyWindow =
     Inr \<lparr>pkg = sdlPkg, methods = [Destroy]\<rparr> \<and>
   synthesizes \<lparr>pkg = sdlPkg, methods = []\<rparr> DestroyWindow \<and>
   \<not> synthesizes \<lparr>pkg = sdlPkg, methods = []\<rparr> Foo \<and>
   \<not> synthesizes \<lparr>pkg = sdlPkg, methods = []\<rparr> Poll \<and>
   \<not> synthesizes \<lparr>pkg = sdlPkg, methods = []\<rparr> RaiseWindow"
proof -
  let ?gen = "\<lparr>pkg = sdlPkg, methods = []\<rparr>"
  have "synthesizes ?gen DestroyWindow"
    using parseFuncDecl_rules_in_order [of ?gen DestroyWindow]
    by (simp add: DestroyWindow_def sdlPkg_def sdlTypes_def sdlWindow_def validMethodTypes_def)
  moreover have "\<not> synthesizes ?gen Foo"
    using parseFuncDecl_rules_in_order [of ?gen Foo]
    by (simp add: Foo_def)
  moreover have "\<not> synthesizes ?gen Poll"
    using parseFuncDecl_rules_in_order [of ?gen Poll]
    by (simp add: Poll_def sdlPkg_def sdlTypes_def sdlWindow_def validMethodTypes_def)
  moreover have "\<not> synthesizes ?gen RaiseWindow"
    using parseFuncDecl_rules_in_order [of ?gen RaiseWindow]
    by (simp add: RaiseWindow_def)
  ultimately show ?thesis
    using parseFuncDecl_DestroyWindow [of sdlPkg "[]"] by (simp add: TypesInfo_samples)
qed

text \<open>
  The classifier as the specification words it accepts \<^verbatim>\<open>func RaiseWindow(*Window) bool\<close>:
  the declaration has no receiver, it has a parameter, its first slot does not declare
  more than one name, and the type of the slot is in the allow-list. The code skips it.
\<close>

theorem classifier_as_stated_counterexample:
  "classifier_as_stated sdlPkg RaiseWindow \<and>
   \<not> synthesizes \<lparr>pkg = sdlPkg, methods = []\<rparr> RaiseWindow \<and>
   parseFuncDecl \<lparr>pkg = sdlPkg, methods = []\<rparr> RaiseWindow = Inr \<lparr>pkg = sdlPkg, methods = []\<rparr>"
proof -
  have "classifier_as_stated sdlPkg RaiseWindow"
    by (simp add: classifier_as_stated_def RaiseWindow_def sdlPkg_def sdlTypes_def
        sdlWindow_def validMethodTypes_def)
  moreover have "parseFuncDecl \<lparr>pkg = sdlPkg, methods = []\<rparr> RaiseWindow =
                   Inr \<lparr>pkg = sdlPkg, methods = []\<rparr>"
    by (rule parseFuncDecl_RaiseWindow)
  ultimately show ?thesis
    by (simp add: synthesizes_def)
qed

section \<open>Walking the package\<close>

lemma append_method_neq [simp]:
  "gen\<lparr>methods := methods gen @ [m]\<rparr> \<noteq> gen"
proof
  assume "gen\<lparr>methods := methods gen @ [m]\<rparr> = gen"
  then have "methods (gen\<lparr>methods := methods gen @ [m]\<rparr>) = methods gen"
    by (rule arg_cong)
  then show False by simp
qed

lemma parseFuncDecl_contribution:
  assumes "parseFuncDecl gen decl = Inr gen'"
  shows "gen' = gen\<lparr>methods := methods gen @ contribution (pkg gen) (FuncDecl decl)\<rparr>"
proof -
  from parseFuncDecl_Inr [OF assms] show ?thesis
  proof
    assume same: "gen' = gen"
    with assms have "parseFuncDecl gen decl = Inr gen"
      by simp
    then have "parseFuncDecl \<lparr>pkg = pkg gen, methods = []\<rparr> decl = Inr \<lparr>pkg = pkg gen, methods = []\<rparr>"
      by (auto simp: parseFuncDecl_def genMethod_def genMethodWith_def Let_def
          split: if_splits option.splits list.splits)
    with same show ?thesis
      by (simp add: contribution_def)
  next
    assume "\<exists>firstParam rest firstParamName ty.
              Recv decl = None \<and>
              Params (FuncType decl) = firstParam # rest \<and>
              Names firstParam = [firstParamName] \<and>
              TypesInfo (pkg gen) (Type firstParam) = Some ty \<and>
              validMethodTypes ty = Some True \<and>
              gen' = gen\<lparr>methods :=
                       methods gen @ [methodDecl renameMethod decl firstParam firstParamName]\<rparr>"
    then obtain firstParam rest firstParamName ty where
      recv: "Recv decl = None" and
      params: "Params (FuncType decl) = firstParam # rest" and
      nms: "Names firstParam = [firstParamName]" and
      ty: "TypesInfo (pkg gen) (Type firstParam) = Some ty" and
      valid: "validMethodTypes ty = Some True" and
      gen': "gen' = gen\<lparr>methods :=
               methods gen @ [methodDecl renameMethod decl firstParam firstParamName]\<rparr>"
      by blast
    from ty have "TypesInfo (pkg \<lparr>pkg = pkg gen, methods = []\<rparr>) (Type firstParam) = Some ty"
      by simp
    from parseFuncDecl_accept [OF recv params nms this valid]
    have "contribution (pkg gen) (FuncDecl decl) =
            [methodDecl renameMethod decl firstParam firstParamName]"
      by (simp add: contribution_def)
    with gen' show ?thesis by simp
  qed
qed

lemma parseDecl_contribution:
  assumes "parseDecl gen decl = Inr gen'"
  shows "gen' = gen\<lparr>methods := methods gen @ contribution (pkg gen) decl\<rparr>"
proof (cases decl)
  case (GenDecl tok)
  with assms show ?thesis by (auto simp: contribution_def)
next
  case (FuncDecl d)
  with assms show ?thesis by (simp add: parseFuncDecl_contribution)
next
  case BadDecl
  with assms show ?thesis by simp
qed

lemma parseDecls_contribution:
  "parseDecls gen decls = Inr gen' \<Longrightarrow>
   gen' = gen\<lparr>methods := methods gen @ concat (map (contribution (pkg gen)) decls)\<rparr>"
proof (induction decls arbitrary: gen)
  case Nil
  then show ?case by simp
next
  case (Cons decl decls)
  from Cons.prems obtain mid where
    first: "parseDecl gen decl = Inr mid" and rest: "parseDecls mid decls = Inr gen'"
    by (auto split: sum.splits)
  from parseDecl_contribution [OF first]
  have mid: "mid = gen\<lparr>methods := methods gen @ contribution (pkg gen) decl\<rparr>" .
  from Cons.IH [OF rest] mid show ?case
    by simp
qed

lemma parseFiles_contribution:
  "parseFiles gen fls = Inr gen' \<Longrightarrow>
   gen' = gen\<lparr>methods := methods gen @
            concat (map (\<lambda>f. concat (map (contribution (pkg gen)) (Decls f))) fls)\<rparr>"
proof (induction fls arbitrary: gen)
  case Nil
  then show ?case by simp
next
  case (Cons f fls)
  from Cons.prems obtain mid where
    first: "parseDecls gen (Decls f) = Inr mid" and rest: "parseFiles mid fls = Inr gen'"
    by (auto simp: parseFile_def split: sum.splits)
  from parseDecls_contribution [OF first]
  have mid: "mid = gen\<lparr>methods := methods gen @ concat (map (contribution (pkg gen)) (Decls f))\<rparr>" .
  from Cons.IH [OF rest] mid show ?case
    by simp
qed

lemma parsePkg_contribution:
  assumes "parsePkg \<lparr>pkg = p, methods = []\<rparr> = Inr gen"
  shows "gen = \<lparr>pkg = p, methods =
           concat (map (\<lambda>f. concat (map (contribution p) (Decls f))) (Syntax p))\<rparr>"
  using parseFiles_contribution [of "\<lparr>pkg = p, methods = []\<rparr>" "Syntax p" gen] assms
  by (simp add: parsePkg_def)

lemma contribution_receiver:
  assumes "m \<in> set (contribution p decl)"
  shows "receiverTypeInAllowList p m"
proof (cases decl)
  case (GenDecl tok)
  with assms show ?thesis by (simp add: contribution_def)
next
  case BadDecl
  with assms show ?thesis by (simp add: contribution_def)
next
  case (FuncDecl d)
  let ?gen = "\<lparr>pkg = p, methods = []\<rparr>"
  from assms FuncDecl have "\<exists>gen'. parseFuncDecl ?gen d = Inr gen' \<and> m \<in> set (methods gen')"
    by (cases "parseFuncDecl ?gen d") (auto simp: contribution_def)
  then obtain gen' where
    run: "parseFuncDecl ?gen d = Inr gen'" and m: "m \<in> set (methods gen')"
    by blast
  from parseFuncDecl_Inr [OF run] m obtain firstParam firstParamName ty where
    ty: "TypesInfo p (Type firstParam) = Some ty" and
    valid: "validMethodTypes ty = Some True" and
    gen': "gen' = ?gen\<lparr>methods :=
             methods ?gen @ [methodDecl renameMethod d firstParam firstParamName]\<rparr>"
    by auto
  from gen' m have "m = methodDecl renameMethod d firstParam firstParamName"
    by simp
  with ty valid show ?thesis
    by (simp add: receiverTypeInAllowList_def methodDecl_def Let_def)
qed

text \<open>
  C1. After a run of \<^verbatim>\<open>parsePkg\<close> that starts with no methods, as \<^verbatim>\<open>genMethods\<close>
  starts it, every generated method has one receiver, and the type of that receiver
  resolves to a string that is a key of \<open>validMethodTypes\<close>. No method with another
  receiver type is in the output.
\<close>
theorem parsePkg_receiver_types_in_allow_list:
  assumes "parsePkg \<lparr>pkg = p, methods = []\<rparr> = Inr gen"
  shows "\<forall>m \<in> set (methods gen). receiverTypeInAllowList p m"
proof
  fix m
  assume "m \<in> set (methods gen)"
  with parsePkg_contribution [OF assms] obtain f decl where
    "m \<in> set (contribution p decl)"
    by auto
  then show "receiverTypeInAllowList p m"
    by (rule contribution_receiver)
qed

lemma parsePkg_sdlPkg:
  "parsePkg \<lparr>pkg = sdlPkg, methods = []\<rparr> = Inr \<lparr>pkg = sdlPkg, methods = [Destroy, GetSize]\<rparr>"
proof -
  have "Syntax sdlPkg =
       [\<lparr>PkgIdent = \<lparr>NamePos = 9, Name = ''sdl''\<rparr>,
         Decls = [GenDecl token_IMPORT, FuncDecl DestroyWindow, FuncDecl Poll]\<rparr>,
        \<lparr>PkgIdent = \<lparr>NamePos = 209, Name = ''sdl''\<rparr>,
         Decls = [GenDecl token_TYPE, FuncDecl GetWindowSize, FuncDecl Foo,
                  FuncDecl RaiseWindow]\<rparr>]"
    by (simp add: sdlPkg_def)
  then show ?thesis
    by (simp add: parsePkg_def parseFile_def parseFuncDecl_DestroyWindow
        parseFuncDecl_GetWindowSize parseFuncDecl_Poll parseFuncDecl_Foo
        parseFuncDecl_RaiseWindow TypesInfo_samples)
qed

lemma parsePkg_eventPkg:
  "parsePkg \<lparr>pkg = eventPkg, methods = []\<rparr> = Inr \<lparr>pkg = eventPkg, methods = []\<rparr>"
proof -
  have "Syntax eventPkg =
       [\<lparr>PkgIdent = \<lparr>NamePos = 9, Name = ''event''\<rparr>,
         Decls = [GenDecl token_VAR, FuncDecl Poll, FuncDecl Foo]\<rparr>]"
    by (simp add: eventPkg_def)
  then show ?thesis
    by (simp add: parsePkg_def parseFile_def parseFuncDecl_Poll parseFuncDecl_Foo
        TypesInfo_samples)
qed

lemma parsePkg_brokenPkg:
  "parsePkg \<lparr>pkg = brokenPkg, methods = []\<rparr> = Inl NotYetImplemented"
proof -
  have "Syntax brokenPkg =
       [\<lparr>PkgIdent = \<lparr>NamePos = 9, Name = ''broken''\<rparr>,
         Decls = [FuncDecl DestroyWindow, BadDecl, FuncDecl GetWindowSize]\<rparr>]"
    by (simp add: brokenPkg_def)
  then show ?thesis
    by (simp add: parsePkg_def parseFile_def parseFuncDecl_DestroyWindow TypesInfo_samples)
qed

theorem parsePkg_receiver_types_in_allow_list_witness:
  "parsePkg \<lparr>pkg = sdlPkg, methods = []\<rparr> = Inr \<lparr>pkg = sdlPkg, methods = [Destroy, GetSize]\<rparr> \<and>
   receiverTypeInAllowList sdlPkg Destroy \<and> receiverTypeInAllowList sdlPkg GetSize"
  using parsePkg_sdlPkg parsePkg_receiver_types_in_allow_list [OF parsePkg_sdlPkg]
  by simp

lemma parseDecls_BadDecl:
  "BadDecl \<in> set decls \<Longrightarrow> \<exists>pan. parseDecls gen decls = Inl pan"
proof (induction decls arbitrary: gen)
  case Nil
  then show ?case by simp
next
  case (Cons decl decls)
  show ?case
  proof (cases "parseDecl gen decl")
    case (Inl pan)
    then show ?thesis by simp
  next
    case (Inr mid)
    then have "decl \<noteq> BadDecl"
      by auto
    with Cons.prems have "BadDecl \<in> set decls"
      by simp
    from Cons.IH [OF this, of mid] Inr show ?thesis
      by simp
  qed
qed

lemma parseFiles_BadDecl:
  "f \<in> set fls \<Longrightarrow> BadDecl \<in> set (Decls f) \<Longrightarrow> \<exists>pan. parseFiles gen fls = Inl pan"
proof (induction fls arbitrary: gen)
  case Nil
  then show ?case by simp
next
  case (Cons g fls)
  show ?case
  proof (cases "parseFile gen g")
    case (Inl pan)
    then show ?thesis by simp
  next
    case (Inr mid)
    with parseDecls_BadDecl [of "Decls g" gen] have "BadDecl \<notin> set (Decls g)"
      by (auto simp: parseFile_def)
    with Cons.prems have "f \<in> set fls"
      by auto
    from Cons.IH [OF this Cons.prems(2), of mid] Inr show ?thesis
      by simp
  qed
qed

text \<open>
  C7. A declaration that is neither a general declaration nor a function declaration
  makes \<^verbatim>\<open>parseDecl\<close> panic, and a general declaration is passed over with the state
  unchanged. A package that holds such a declaration in any of its files makes the whole
  run end in a panic, with nothing written and nothing printed.
\<close>
theorem parseDecl_unknown_kind_aborts:
  "parseDecl gen BadDecl = Inl NotYetImplemented \<and>
   parseDecl gen (GenDecl tok) = Inr gen \<and>
   (loadPkg ext pkgPath = Inr p \<and> f \<in> set (Syntax p) \<and> BadDecl \<in> set (Decls f) \<longrightarrow>
      (\<exists>pan. parsePkg \<lparr>pkg = p, methods = []\<rparr> = Inl pan \<and>
             genMethods ext pkgPath output w = (Some (Panic pan), w)))"
proof (intro conjI impI)
  show "parseDecl gen BadDecl = Inl NotYetImplemented"
    by simp
  show "parseDecl gen (GenDecl tok) = Inr gen"
    by simp
  assume a: "loadPkg ext pkgPath = Inr p \<and> f \<in> set (Syntax p) \<and> BadDecl \<in> set (Decls f)"
  then obtain pan where "parsePkg \<lparr>pkg = p, methods = []\<rparr> = Inl pan"
    using parseFiles_BadDecl [of f "Syntax p" "\<lparr>pkg = p, methods = []\<rparr>"]
    by (auto simp: parsePkg_def)
  moreover from this a have "genMethods ext pkgPath output w = (Some (Panic pan), w)"
    by (simp add: genMethods_def)
  ultimately show "\<exists>pan. parsePkg \<lparr>pkg = p, methods = []\<rparr> = Inl pan \<and>
                         genMethods ext pkgPath output w = (Some (Panic pan), w)"
    by blast
qed

lemma loadPkg_sampleTools:
  "loadPkg (sampleTools [p]) (PkgPath p) = Inr p"
  by (simp add: loadPkg_def sampleTools_def)

theorem parseDecl_unknown_kind_aborts_witness:
  "loadPkg (sampleTools [brokenPkg]) ''example.org/broken'' = Inr brokenPkg \<and>
   \<lparr>PkgIdent = \<lparr>NamePos = 9, Name = ''broken''\<rparr>,
    Decls = [FuncDecl DestroyWindow, BadDecl, FuncDecl GetWindowSize]\<rparr> \<in> set (Syntax brokenPkg) \<and>
   genMethods (sampleTools [brokenPkg]) ''example.org/broken'' ''methods.go'' emptyWorld =
     (Some (Panic NotYetImplemented), emptyWorld)"
proof -
  let ?f = "\<lparr>PkgIdent = \<lparr>NamePos = 9, Name = ''broken''\<rparr>,
             Decls = [FuncDecl DestroyWindow, BadDecl, FuncDecl GetWindowSize]\<rparr>"
  have l: "loadPkg (sampleTools [brokenPkg]) ''example.org/broken'' = Inr brokenPkg"
    using loadPkg_sampleTools [of brokenPkg] by (simp add: brokenPkg_def)
  have f: "?f \<in> set (Syntax brokenPkg)"
    by (simp add: brokenPkg_def)
  have b: "BadDecl \<in> set (Decls ?f)"
    by simp
  from l f b parseDecl_unknown_kind_aborts
    [of "\<lparr>pkg = brokenPkg, methods = []\<rparr>" token_VAR "sampleTools [brokenPkg]" "''example.org/broken''" brokenPkg ?f
        "''methods.go''" emptyWorld]
  obtain pan where "parsePkg \<lparr>pkg = brokenPkg, methods = []\<rparr> = Inl pan"
    "genMethods (sampleTools [brokenPkg]) ''example.org/broken'' ''methods.go'' emptyWorld =
       (Some (Panic pan), emptyWorld)"
    by blast
  with parsePkg_brokenPkg l f show ?thesis
    by simp
qed

section \<open>The emitter\<close>

text \<open>
  C6. The text handed to the formatter is the marker line
  \<^verbatim>\<open>// Code generated by "genmethods"; DO NOT EDIT.\<close>, an empty line, and the rendering of
  one file: its package clause has the name of the loaded package, and its declarations
  are the generated methods in the order of the visit, file after file and declaration
  after declaration, with nothing sorted or moved. The emitted text is the formatter's
  result on that text (\<^verbatim>\<open>format.Node\<close> and \<^verbatim>\<open>format.Source\<close> are arguments of the
  model), printed to standard output or written to the destination. When no declaration
  contributes a method, the rendered file has the package clause and no declaration.
\<close>
theorem genMethods_output_in_visit_order:
  assumes \<open>loadPkg ext pkgPath = Inr p\<close>
    and \<open>parsePkg \<lparr>pkg = p, methods = []\<rparr> = Inr gen\<close>
    and \<open>format_Node ext
           \<lparr>PkgIdent = NewIdent (PkgName p),
            Decls = map FuncDecl
              (concat (map (\<lambda>f. concat (map (contribution p) (Decls f))) (Syntax p)))\<rparr> =
         Inr rendered\<close>
    and \<open>format_Source ext
           (''// Code generated by "genmethods"; DO NOT EDIT.'' @ newline @ newline @ rendered) =
         Inr data\<close>
  shows \<open>methods gen = concat (map (\<lambda>f. concat (map (contribution p) (Decls f))) (Syntax p)) \<and>
         genMethods ext pkgPath [] w = (None, w\<lparr>stdout := stdout w @ data\<rparr>) \<and>
         (\<forall>output fs'. output \<noteq> [] \<and> os_WriteFile ext output data (fs w) = (None, fs') \<longrightarrow>
            genMethods ext pkgPath output w = (None, w\<lparr>fs := fs'\<rparr>)) \<and>
         ((\<forall>f \<in> set (Syntax p). \<forall>decl \<in> set (Decls f). contribution p decl = []) \<longrightarrow>
            methods gen = [] \<and>
            format_Node ext \<lparr>PkgIdent = NewIdent (PkgName p), Decls = []\<rparr> = Inr rendered)\<close>
proof -
  let ?visit = "concat (map (\<lambda>f. concat (map (contribution p) (Decls f))) (Syntax p))"
  from parsePkg_contribution [OF assms(2)] have gen: "gen = \<lparr>pkg = p, methods = ?visit\<rparr>" .
  then have 1: "methods gen = ?visit"
    by simp
  have buf: \<open>pre @ newline @ rendered =
      ''// Code generated by "genmethods"; DO NOT EDIT.'' @ newline @ newline @ rendered\<close>
    by (simp add: pre_def)
  have print: "printMethods ext gen out w =
      (if length out > 0 then
         (case os_WriteFile ext out data (fs w) of
            (Some err, fs') \<Rightarrow> (Some (External err), w\<lparr>fs := fs'\<rparr>)
          | (None, fs') \<Rightarrow> (None, w\<lparr>fs := fs'\<rparr>))
       else (None, w\<lparr>stdout := stdout w @ data\<rparr>))" for out
    using assms(3,4) by (simp add: printMethods_def gen buf)
  have 2: "genMethods ext pkgPath [] w = (None, w\<lparr>stdout := stdout w @ data\<rparr>)"
    using assms(1,2) by (simp add: genMethods_def print)
  have 3: "\<forall>output fs'. output \<noteq> [] \<and> os_WriteFile ext output data (fs w) = (None, fs') \<longrightarrow>
             genMethods ext pkgPath output w = (None, w\<lparr>fs := fs'\<rparr>)"
    using assms(1,2) by (simp add: genMethods_def print)
  have 4: "(\<forall>f \<in> set (Syntax p). \<forall>decl \<in> set (Decls f). contribution p decl = []) \<longrightarrow>
             methods gen = [] \<and>
             format_Node ext \<lparr>PkgIdent = NewIdent (PkgName p), Decls = []\<rparr> = Inr rendered"
  proof
    assume "\<forall>f \<in> set (Syntax p). \<forall>decl \<in> set (Decls f). contribution p decl = []"
    then have "?visit = []"
      by simp
    with 1 assms(3) show "methods gen = [] \<and>
        format_Node ext \<lparr>PkgIdent = NewIdent (PkgName p), Decls = []\<rparr> = Inr rendered"
      by simp
  qed
  from 1 2 3 4 show ?thesis by blast
qed

text \<open>
  C8, amended. When a destination is given and \<^verbatim>\<open>os.WriteFile\<close> fails, \<^verbatim>\<open>printMethods\<close>
  returns that error and the run ends with it; nothing is printed. The file system is
  left as that one call of \<^verbatim>\<open>os.WriteFile\<close> left it: the code does nothing more to the
  destination.
\<close>
theorem printMethods_write_failure:
  assumes "output \<noteq> []"
    and "format_Node ext \<lparr>PkgIdent = NewIdent (PkgName (pkg gen)),
                           Decls = map FuncDecl (methods gen)\<rparr> = Inr rendered"
    and "format_Source ext (pre @ newline @ rendered) = Inr data"
    and "os_WriteFile ext output data (fs w) = (Some err, fs')"
  shows "printMethods ext gen output w = (Some (External err), w\<lparr>fs := fs'\<rparr>) \<and>
         (loadPkg ext pkgPath = Inr (pkg gen) \<and>
          parsePkg \<lparr>pkg = pkg gen, methods = []\<rparr> = Inr gen \<longrightarrow>
            genMethods ext pkgPath output w = (Some (Error (External err)), w\<lparr>fs := fs'\<rparr>))"
proof -
  from assms have 1: "printMethods ext gen output w = (Some (External err), w\<lparr>fs := fs'\<rparr>)"
    by (simp add: printMethods_def)
  then show ?thesis
    by (simp add: genMethods_def)
qed

lemma visit_sdlPkg:
  "concat (map (\<lambda>f. concat (map (contribution sdlPkg) (Decls f))) (Syntax sdlPkg)) =
     [Destroy, GetSize]"
  using parsePkg_contribution [OF parsePkg_sdlPkg] by simp

lemma visit_eventPkg:
  "concat (map (\<lambda>f. concat (map (contribution eventPkg) (Decls f))) (Syntax eventPkg)) = []"
  using parsePkg_contribution [OF parsePkg_eventPkg] by simp

lemma sampleTools_simps:
  "format_Node (sampleTools pkgs) = renderFile"
  "format_Source (sampleTools pkgs) = Inr"
  "os_WriteFile (sampleTools pkgs) = go_WriteFile"
  by (simp_all add: sampleTools_def)

lemma renderFile_sdl:
  "renderFile \<lparr>PkgIdent = NewIdent (PkgName sdlPkg), Decls = map FuncDecl [Destroy, GetSize]\<rparr> =
     Inr (''package sdl'' @ newline @ newline @ ''func Destroy'' @ newline @
          newline @ ''func GetSize'' @ newline)"
  by (simp add: renderFile_def NewIdent_def sdlPkg_def Destroy_def GetSize_def)

lemma renderFile_event:
  "renderFile \<lparr>PkgIdent = NewIdent (PkgName eventPkg), Decls = map FuncDecl []\<rparr> =
     Inr (''package event'' @ newline)"
  by (simp add: renderFile_def NewIdent_def eventPkg_def)

lemma go_WriteFile_fits:
  assumes "length data \<le> space fsys"
  shows "go_WriteFile name data fsys =
           (None, fsys\<lparr>files := (files fsys)(name \<mapsto> data), space := space fsys - length data\<rparr>)"
  using assms by (simp add: go_WriteFile_def Let_def min_def)

lemma go_WriteFile_short:
  assumes "space fsys < length data"
  shows "go_WriteFile name data fsys =
           (Some ''no space left on device'',
            fsys\<lparr>files := (files fsys)(name \<mapsto> take (space fsys) data), space := 0\<rparr>)"
  using assms by (simp add: go_WriteFile_def Let_def min_def)

theorem genMethods_output_in_visit_order_witness:
  \<open>genMethods (sampleTools [sdlPkg]) ''github.com/jupiterrider/purego-sdl3/sdl'' [] emptyWorld =
     (None, emptyWorld\<lparr>stdout :=
        ''// Code generated by "genmethods"; DO NOT EDIT.'' @ newline @ newline @
        ''package sdl'' @ newline @ newline @ ''func Destroy'' @ newline @
        newline @ ''func GetSize'' @ newline\<rparr>) \<and>
   contribution eventPkg (GenDecl token_VAR) = [] \<and>
   contribution eventPkg (FuncDecl Poll) = [] \<and>
   contribution eventPkg (FuncDecl Foo) = [] \<and>
   genMethods (sampleTools [eventPkg]) ''example.org/event'' [] emptyWorld =
     (None, emptyWorld\<lparr>stdout :=
        ''// Code generated by "genmethods"; DO NOT EDIT.'' @ newline @ newline @
        ''package event'' @ newline\<rparr>) \<and>
   format_Node (sampleTools [eventPkg]) \<lparr>PkgIdent = NewIdent ''event'', Decls = []\<rparr> =
     Inr (''package event'' @ newline) \<and>
   genMethods (sampleTools [eventPkg]) ''example.org/event'' ''methods.go'' emptyWorld =
     (None, emptyWorld\<lparr>fs := \<lparr>files = [''methods.go'' \<mapsto>
        ''// Code generated by "genmethods"; DO NOT EDIT.'' @ newline @ newline @
        ''package event'' @ newline], space = 937\<rparr>\<rparr>)\<close>
proof -
  let ?sdl = "''package sdl'' @ newline @ newline @ ''func Destroy'' @ newline @
              newline @ ''func GetSize'' @ newline"
  have l1: "loadPkg (sampleTools [sdlPkg]) ''github.com/jupiterrider/purego-sdl3/sdl'' = Inr sdlPkg"
    using loadPkg_sampleTools [of sdlPkg] by (simp add: sdlPkg_def)
  have n1: "format_Node (sampleTools [sdlPkg])
              \<lparr>PkgIdent = NewIdent (PkgName sdlPkg),
               Decls = map FuncDecl
                 (concat (map (\<lambda>f. concat (map (contribution sdlPkg) (Decls f)))
                              (Syntax sdlPkg)))\<rparr> = Inr ?sdl"
    by (simp only: visit_sdlPkg sampleTools_simps renderFile_sdl)
  have s1: \<open>format_Source (sampleTools [sdlPkg])
              (''// Code generated by "genmethods"; DO NOT EDIT.'' @ newline @ newline @ ?sdl) =
            Inr (''// Code generated by "genmethods"; DO NOT EDIT.'' @ newline @ newline @ ?sdl)\<close>
    by (simp only: sampleTools_simps)
  note a = genMethods_output_in_visit_order [OF l1 parsePkg_sdlPkg n1 s1, of emptyWorld]
  have l2: "loadPkg (sampleTools [eventPkg]) ''example.org/event'' = Inr eventPkg"
    using loadPkg_sampleTools [of eventPkg] by (simp add: eventPkg_def)
  have n2: "format_Node (sampleTools [eventPkg])
              \<lparr>PkgIdent = NewIdent (PkgName eventPkg),
               Decls = map FuncDecl
                 (concat (map (\<lambda>f. concat (map (contribution eventPkg) (Decls f)))
                              (Syntax eventPkg)))\<rparr> = Inr (''package event'' @ newline)"
    by (simp only: visit_eventPkg sampleTools_simps renderFile_event)
  have s2: \<open>format_Source (sampleTools [eventPkg])
              (''// Code generated by "genmethods"; DO NOT EDIT.'' @ newline @ newline @
               ''package event'' @ newline) =
            Inr (''// Code generated by "genmethods"; DO NOT EDIT.'' @ newline @ newline @
                 ''package event'' @ newline)\<close>
    by (simp only: sampleTools_simps)
  note b = genMethods_output_in_visit_order [OF l2 parsePkg_eventPkg n2 s2, of emptyWorld]
  have none: "\<forall>f \<in> set (Syntax eventPkg). \<forall>decl \<in> set (Decls f). contribution eventPkg decl = []"
    using visit_eventPkg by simp
  have e: "PkgName eventPkg = ''event''"
    by (simp add: eventPkg_def)
  from a have 1: \<open>genMethods (sampleTools [sdlPkg]) ''github.com/jupiterrider/purego-sdl3/sdl'' []
                    emptyWorld =
     (None, emptyWorld\<lparr>stdout := stdout emptyWorld @
        (''// Code generated by "genmethods"; DO NOT EDIT.'' @ newline @ newline @ ?sdl)\<rparr>)\<close>
    by blast
  from b have 2: \<open>genMethods (sampleTools [eventPkg]) ''example.org/event'' [] emptyWorld =
     (None, emptyWorld\<lparr>stdout := stdout emptyWorld @
        (''// Code generated by "genmethods"; DO NOT EDIT.'' @ newline @ newline @
         ''package event'' @ newline)\<rparr>)\<close>
    by blast
  from b none have 3: "format_Node (sampleTools [eventPkg])
      \<lparr>PkgIdent = NewIdent (PkgName eventPkg), Decls = []\<rparr> = Inr (''package event'' @ newline)"
    by blast
  have out: "stdout emptyWorld = []"
    by (simp add: emptyWorld_def)
  have w: \<open>os_WriteFile (sampleTools [eventPkg]) ''methods.go''
              (''// Code generated by "genmethods"; DO NOT EDIT.'' @ newline @ newline @
               ''package event'' @ newline) (fs emptyWorld) =
            (None, \<lparr>files = [''methods.go'' \<mapsto>
               ''// Code generated by "genmethods"; DO NOT EDIT.'' @ newline @ newline @
               ''package event'' @ newline], space = 937\<rparr>)\<close>
    by (simp add: sampleTools_simps go_WriteFile_fits emptyWorld_def newline_def)
  from b w have 4: \<open>genMethods (sampleTools [eventPkg]) ''example.org/event'' ''methods.go''
                      emptyWorld =
      (None, emptyWorld\<lparr>fs := \<lparr>files = [''methods.go'' \<mapsto>
         ''// Code generated by "genmethods"; DO NOT EDIT.'' @ newline @ newline @
         ''package event'' @ newline], space = 937\<rparr>\<rparr>)\<close>
    by blast
  from none have 5: "contribution eventPkg (GenDecl token_VAR) = [] \<and>
                     contribution eventPkg (FuncDecl Poll) = [] \<and>
                     contribution eventPkg (FuncDecl Foo) = []"
    by (simp add: eventPkg_def)
  from 1 2 3 4 5 show ?thesis
    unfolding out e append_Nil by (intro conjI) simp_all
qed

theorem printMethods_write_failure_witness:
  \<open>printMethods (sampleTools [eventPkg]) \<lparr>pkg = eventPkg, methods = []\<rparr> ''methods.go'' fullDisk =
     (Some (External ''no space left on device''),
      fullDisk\<lparr>fs := \<lparr>files = [''methods.go'' \<mapsto> ''// Code ge''], space = 0\<rparr>\<rparr>) \<and>
   genMethods (sampleTools [eventPkg]) ''example.org/event'' ''methods.go'' fullDisk =
     (Some (Error (External ''no space left on device'')),
      fullDisk\<lparr>fs := \<lparr>files = [''methods.go'' \<mapsto> ''// Code ge''], space = 0\<rparr>\<rparr>)\<close>
proof -
  let ?gen = "\<lparr>pkg = eventPkg, methods = []\<rparr>"
  let ?data = \<open>pre @ newline @ ''package event'' @ newline\<close>
  have o: "''methods.go'' \<noteq> []"
    by simp
  have n: "format_Node (sampleTools [eventPkg])
             \<lparr>PkgIdent = NewIdent (PkgName (pkg ?gen)), Decls = map FuncDecl (methods ?gen)\<rparr> =
           Inr (''package event'' @ newline)"
    using renderFile_event by (simp add: sampleTools_simps)
  have s: "format_Source (sampleTools [eventPkg]) ?data = Inr ?data"
    by (simp only: sampleTools_simps)
  have w: "os_WriteFile (sampleTools [eventPkg]) ''methods.go'' ?data (fs fullDisk) =
             (Some ''no space left on device'',
              \<lparr>files = [''methods.go'' \<mapsto> ''// Code ge''], space = 0\<rparr>)"
    by (simp add: sampleTools_simps go_WriteFile_short fullDisk_def pre_def newline_def)
  have l: "loadPkg (sampleTools [eventPkg]) ''example.org/event'' = Inr (pkg ?gen)"
    using loadPkg_sampleTools [of eventPkg] by (simp add: eventPkg_def)
  have p: "parsePkg \<lparr>pkg = pkg ?gen, methods = []\<rparr> = Inr ?gen"
    using parsePkg_eventPkg by simp
  from printMethods_write_failure [OF o n s w, of "''example.org/event''"] l p
  show ?thesis
    by blast
qed

text \<open>
  The write is not all-or-nothing. On a device that takes ten more bytes,
  \<^verbatim>\<open>os.WriteFile\<close> has emptied the older output file and stored the first ten bytes of
  the new text when it fails: the destination holds neither what it held before nor the
  generated text.
\<close>

theorem write_all_or_nothing_counterexample:
  \<open>fst (printMethods (sampleTools [eventPkg]) \<lparr>pkg = eventPkg, methods = []\<rparr> ''methods.go''
          fullDisk) = Some (External ''no space left on device'') \<and>
   files (fs fullDisk) ''methods.go'' = Some ''package old'' \<and>
   files (fs (snd (printMethods (sampleTools [eventPkg]) \<lparr>pkg = eventPkg, methods = []\<rparr>
                      ''methods.go'' fullDisk))) ''methods.go'' = Some ''// Code ge'' \<and>
   \<not> all_or_nothing ''methods.go''
       (''// Code generated by "genmethods"; DO NOT EDIT.'' @ newline @ newline @
        ''package event'' @ newline)
       (fs fullDisk)
       (fs (snd (printMethods (sampleTools [eventPkg]) \<lparr>pkg = eventPkg, methods = []\<rparr>
                   ''methods.go'' fullDisk)))\<close>
proof -
  have run: "printMethods (sampleTools [eventPkg]) \<lparr>pkg = eventPkg, methods = []\<rparr> ''methods.go''
               fullDisk =
     (Some (External ''no space left on device''),
      fullDisk\<lparr>fs := \<lparr>files = [''methods.go'' \<mapsto> ''// Code ge''], space = 0\<rparr>\<rparr>)"
    using renderFile_event
    by (simp add: printMethods_def sampleTools_simps go_WriteFile_short fullDisk_def pre_def
        newline_def)
  show ?thesis
    unfolding run by (simp add: all_or_nothing_def fullDisk_def newline_def)
qed

end
